theory Spec2Isabelle
  imports
    Main
    "HOL-Library.AList"
    "HOL-Library.Char_ord"
    "HOL-Library.List_Lexorder"
    "HOL-Library.Sublist"
begin

section \<open>Python values, dictionaries and strings\<close>

text \<open>
  The patch tools of \<^verbatim>\<open>src/inference\<close> move attribute values between module objects
  without looking inside them, so a value is a constant, a string, an opaque object
  (a class or a function, known by its identity) or a dictionary of values.
  A Python \<^verbatim>\<open>dict\<close> is an association list in insertion order; the first binding of a
  key is the one that counts, so every list stands for one dictionary.
\<close>

datatype pyval =
    PyBool bool
  | PyInt int
  | PyStr string
  | PyObj nat
  | PyDict "(string \<times> pyval) list"

type_synonym 'v pydict = "(string \<times> 'v) list"

type_synonym pymodule = "pyval pydict"

datatype py_error =
    FileNotFoundError
  | ImportError
  | AttributeError
  | KeyError
  | RaisedByModule nat

definition py_items :: "'v pydict \<Rightarrow> (string \<times> 'v) list" where
  "py_items d = AList.clearjunk d"

definition py_keys :: "'v pydict \<Rightarrow> string list" where
  "py_keys d = map fst (py_items d)"

text \<open>\<^verbatim>\<open>dir(module)\<close>: the bound names, sorted.\<close>

definition py_dir :: "pymodule \<Rightarrow> string list" where
  "py_dir m = sort (py_keys m)"

definition getattr :: "pymodule \<Rightarrow> string \<Rightarrow> pyval option" where
  "getattr m n = map_of m n"

definition hasattr :: "pymodule \<Rightarrow> string \<Rightarrow> bool" where
  "hasattr m n = (map_of m n \<noteq> None)"

definition setattr :: "pymodule \<Rightarrow> string \<Rightarrow> pyval \<Rightarrow> pymodule" where
  "setattr m n v = AList.update n v m"

definition delattr :: "pymodule \<Rightarrow> string \<Rightarrow> pymodule" where
  "delattr m n = AList.delete n m"

text \<open>\<^verbatim>\<open>name.startswith('_')\<close>\<close>

definition startswith_underscore :: "string \<Rightarrow> bool" where
  "startswith_underscore n = (case n of [] \<Rightarrow> False | c # _ \<Rightarrow> c = CHR ''_'')"

text \<open>\<^verbatim>\<open>s.split('.')\<close> and \<^verbatim>\<open>'.'.join(parts)\<close>\<close>

fun split_dot_acc :: "string \<Rightarrow> string \<Rightarrow> string list" where
  "split_dot_acc cur [] = [rev cur]"
| "split_dot_acc cur (c # cs) =
     (if c = CHR ''.'' then rev cur # split_dot_acc [] cs else split_dot_acc (c # cur) cs)"

definition split_dot :: "string \<Rightarrow> string list" where
  "split_dot s = split_dot_acc [] s"

fun join_dot :: "string list \<Rightarrow> string" where
  "join_dot [] = []"
| "join_dot [p] = p"
| "join_dot (p # q # ps) = p @ ''.'' @ join_dot (q # ps)"

text \<open>\<^verbatim>\<open>s.replace('.', '_')\<close>\<close>

definition dots_to_underscores :: "string \<Rightarrow> string" where
  "dots_to_underscores s = map (\<lambda>c. if c = CHR ''.'' then CHR ''_'' else c) s"

definition endswith :: "string \<Rightarrow> string \<Rightarrow> bool" where
  "endswith s suf =
     (length suf \<le> length s \<and> drop (length s - length suf) s = suf)"

section \<open>The process: module registry, files, interpreter, and the patcher's objects\<close>

text \<open>
  Executing a module body binds names: by a definition or assignment, or by an import.
  Both kinds end up in the namespace of the module; the origin is kept only to be able
  to speak about it.
\<close>

datatype origin = Defined | Imported

type_synonym binding = "string \<times> origin \<times> pyval"

record patch_record =
  source_file :: string
  patch_count :: nat
  backup_available :: bool

text \<open>
  \<^verbatim>\<open>sys_modules\<close> is \<^verbatim>\<open>sys.modules\<close>; a module object is reached by this code only through
  its registry entry, so the entry holds the namespace itself.
  \<^verbatim>\<open>installed\<close> is what the import system loads for a path that is not registered yet,
  \<^verbatim>\<open>files\<close> the text files by path, \<^verbatim>\<open>py_exec\<close> the interpreter running a module body,
  \<^verbatim>\<open>script_dir\<close> the directory of the patch tool (\<^verbatim>\<open>Path(__file__).parent\<close>),
  \<^verbatim>\<open>object_attrs\<close> the attribute names of an opaque object.
  The dictionaries \<^verbatim>\<open>applied_patches\<close> and \<^verbatim>\<open>backup_modules\<close> of a patcher and the record
  dictionaries stored in \<^verbatim>\<open>applied_patches\<close> are objects in a store, because
  \<^verbatim>\<open>list_patches\<close> hands references to them to its caller.
\<close>

record world =
  sys_modules :: "string \<rightharpoonup> pymodule"
  installed :: "string \<rightharpoonup> pymodule"
  files :: "string \<rightharpoonup> string"
  py_exec :: "string \<Rightarrow> py_error + binding list"
  script_dir :: string
  patch_dicts :: "nat \<rightharpoonup> nat pydict"
  patch_records :: "nat \<rightharpoonup> patch_record"
  backup_dicts :: "nat \<rightharpoonup> pymodule pydict"
  next_addr :: nat
  object_attrs :: "nat \<Rightarrow> string list"

record patcher =
  applied_patches :: nat
  backup_modules :: nat

text \<open>\<^verbatim>\<open>TransformersRuntimePatcher.__init__\<close>: two new empty dictionaries.\<close>

definition new_patcher :: "world \<Rightarrow> patcher \<times> world" where
  "new_patcher w =
     (let a = next_addr w; b = next_addr w + 1 in
      (\<lparr>applied_patches = a, backup_modules = b\<rparr>,
       w\<lparr>patch_dicts := (patch_dicts w)(a \<mapsto> []),
         backup_dicts := (backup_dicts w)(b \<mapsto> []),
         next_addr := next_addr w + 2\<rparr>))"

subsection \<open>The import system\<close>

text \<open>
  \<^verbatim>\<open>importlib.import_module(name)\<close>: a registered module is returned as it is; otherwise
  the parent package is imported first and the module is loaded and registered.
  The argument is the list of the name's components, last component first.
\<close>

fun import_parts :: "string list \<Rightarrow> world \<Rightarrow> (py_error + pymodule) \<times> world" where
  "import_parts [] w = (Inl ImportError, w)"
| "import_parts (leaf # rparents) w =
     (case sys_modules w (join_dot (rev (leaf # rparents))) of
        Some m \<Rightarrow> (Inr m, w)
      | None \<Rightarrow>
          (case (if rparents = [] then (Inr [], w) else import_parts rparents w) of
             (Inl e, w') \<Rightarrow> (Inl e, w')
           | (Inr _, w') \<Rightarrow>
               (case installed w' (join_dot (rev (leaf # rparents))) of
                  None \<Rightarrow> (Inl ImportError, w')
                | Some m \<Rightarrow>
                    (Inr m, w'\<lparr>sys_modules :=
                       (sys_modules w')(join_dot (rev (leaf # rparents)) \<mapsto> m)\<rparr>))))"

definition import_module :: "string \<Rightarrow> world \<Rightarrow> (py_error + pymodule) \<times> world" where
  "import_module name w = import_parts (rev (split_dot name)) w"

text \<open>
  \<^verbatim>\<open>importlib.util.spec_from_file_location(name, path)\<close> gives no spec when no loader
  handles the file's suffix; of the loaders only the one for source files is modelled.
\<close>

definition spec_from_file_location :: "string \<Rightarrow> string \<Rightarrow> (string \<times> string) option" where
  "spec_from_file_location name path =
     (if endswith path ''.py'' then Some (name, path) else None)"

text \<open>
  \<^verbatim>\<open>module_from_spec\<close> and \<^verbatim>\<open>spec.loader.exec_module\<close>: the new module has its
  \<^verbatim>\<open>__name__\<close>, and the bindings made by its body in their order.
\<close>

definition namespace_of :: "string \<Rightarrow> binding list \<Rightarrow> pymodule" where
  "namespace_of name bs =
     fold (\<lambda>(n, _, v) m. setattr m n v) bs [(''__name__'', PyStr name)]"

definition exec_module :: "string \<times> string \<Rightarrow> world \<Rightarrow> py_error + pymodule" where
  "exec_module spec w =
     (case files w (snd spec) of
        None \<Rightarrow> Inl FileNotFoundError
      | Some src \<Rightarrow>
          (case py_exec w src of
             Inl e \<Rightarrow> Inl e
           | Inr bs \<Rightarrow> Inr (namespace_of (fst spec) bs)))"

section \<open>\<^verbatim>\<open>fixed_patch.py\<close>: \<^verbatim>\<open>TransformersRuntimePatcher\<close>\<close>

text \<open>\<^verbatim>\<open>import transformers\<close> followed by the read of \<^verbatim>\<open>transformers.__version__\<close>.\<close>

definition import_transformers :: "world \<Rightarrow> (py_error + pymodule) \<times> world" where
  "import_transformers w =
     (case import_module ''transformers'' w of
        (Inl e, w') \<Rightarrow> (Inl e, w')
      | (Inr m, w') \<Rightarrow>
          (if hasattr m ''__version__'' then (Inr m, w') else (Inl AttributeError, w')))"

text \<open>
  Lines 64 to 71: every parent package of the target that is not registered is imported
  and registered; a parent that cannot be imported is skipped.
\<close>

definition register_parent :: "string \<Rightarrow> world \<Rightarrow> world" where
  "register_parent parent_path w =
     (if sys_modules w parent_path = None then
        (case import_module parent_path w of
           (Inl e, w') \<Rightarrow> w'
         | (Inr m, w') \<Rightarrow> w'\<lparr>sys_modules := (sys_modules w')(parent_path \<mapsto> m)\<rparr>)
      else w)"

definition register_parents :: "string \<Rightarrow> world \<Rightarrow> world" where
  "register_parents module_path w =
     (let parent_modules = butlast (split_dot module_path) in
      fold (\<lambda>i. register_parent (join_dot (take (i + 1) parent_modules)))
        [0 ..< length parent_modules] w)"

text \<open>Lines 82 to 85: the public attributes of the target, in the order of \<^verbatim>\<open>dir\<close>.\<close>

definition backup_attributes :: "pymodule \<Rightarrow> pymodule" where
  "backup_attributes target_module =
     fold (\<lambda>attr_name b.
             if \<not> startswith_underscore attr_name then
               (case getattr target_module attr_name of
                  Some v \<Rightarrow> AList.update attr_name v b
                | None \<Rightarrow> b)
             else b)
       (py_dir target_module) []"

text \<open>
  Lines 88 to 92: every public attribute of the custom module is set on the target and
  counted. \<^verbatim>\<open>dir\<close> lists bound names only, so \<^verbatim>\<open>getattr\<close> finds each of them.
\<close>

definition transplant :: "pymodule \<Rightarrow> pymodule \<Rightarrow> pymodule \<times> nat" where
  "transplant custom_module target_module =
     fold (\<lambda>attr_name (t, count).
             if \<not> startswith_underscore attr_name then
               (case getattr custom_module attr_name of
                  Some v \<Rightarrow> (setattr t attr_name v, count + 1)
                | None \<Rightarrow> (t, count))
             else (t, count))
       (py_dir custom_module) (target_module, 0)"

text \<open>
  \<^verbatim>\<open>patch_module_from_file\<close>. Every exception raised in the body is caught by the outer
  \<^verbatim>\<open>except Exception\<close>, which returns \<^verbatim>\<open>False\<close>; what was changed before stays changed.
\<close>

definition patch_module_from_file ::
    "patcher \<Rightarrow> string \<Rightarrow> string \<Rightarrow> bool \<Rightarrow> world \<Rightarrow> bool \<times> world" where
  "patch_module_from_file self module_path custom_file_path backup w =
     (if files w custom_file_path = None then (False, w)
      else
        (case import_transformers w of
           (Inl e, w1) \<Rightarrow> (False, w1)
         | (Inr _, w1) \<Rightarrow>
        (case import_module module_path w1 of
           (Inl e, w2) \<Rightarrow> (False, w2)
         | (Inr target_module, w2) \<Rightarrow>
        (case spec_from_file_location
                (''custom_'' @ dots_to_underscores module_path) custom_file_path of
           None \<Rightarrow> (False, w2)
         | Some spec \<Rightarrow>
        (let w3 = register_parents module_path w2 in
        (case exec_module spec w3 of
           Inl e \<Rightarrow> (False, w3)
         | Inr custom_module \<Rightarrow>
        (case (if backup then
                 (case backup_dicts w3 (backup_modules self) of
                    None \<Rightarrow> None
                  | Some backups \<Rightarrow>
                      Some (w3\<lparr>backup_dicts := (backup_dicts w3)(backup_modules self \<mapsto>
                        AList.update module_path (backup_attributes target_module) backups)\<rparr>))
               else Some w3) of
           None \<Rightarrow> (False, w3)
         | Some w4 \<Rightarrow>
        (case transplant custom_module target_module of
           (target1, count) \<Rightarrow>
        (let target2 = setattr target1 ''_runtime_patched'' (PyBool True);
             target3 = setattr target2 ''_patch_source'' (PyStr custom_file_path);
             w5 = w4\<lparr>sys_modules := (sys_modules w4)(module_path \<mapsto> target3)\<rparr>
         in
        (case patch_dicts w5 (applied_patches self) of
           None \<Rightarrow> (False, w5)
         | Some applied \<Rightarrow>
             (True,
              w5\<lparr>patch_records := (patch_records w5)(next_addr w5 \<mapsto>
                     \<lparr>source_file = custom_file_path,
                      patch_count = count,
                      backup_available = backup\<rparr>),
                 patch_dicts := (patch_dicts w5)(applied_patches self \<mapsto>
                     AList.update module_path (next_addr w5) applied),
                 next_addr := next_addr w5 + 1\<rparr>)))))))))))"

text \<open>\<^verbatim>\<open>patch_mllama_processor\<close>: the default file lies beside the tool.\<close>

definition mllama_module_path :: string where
  "mllama_module_path = ''transformers.models.mllama.processing_mllama''"

definition patch_mllama_processor :: "patcher \<Rightarrow> string option \<Rightarrow> world \<Rightarrow> bool \<times> world" where
  "patch_mllama_processor self custom_file_path w =
     patch_module_from_file self mllama_module_path
       (case custom_file_path of
          None \<Rightarrow> script_dir w @ ''/'' @ ''processing_mllama.py''
        | Some p \<Rightarrow> p)
       True w"

text \<open>
  \<^verbatim>\<open>restore_module\<close>. The two early returns come first; a missing registry entry or a
  missing backup raises \<^verbatim>\<open>KeyError\<close> before anything is changed, and the \<^verbatim>\<open>except\<close>
  returns \<^verbatim>\<open>False\<close>.
\<close>

definition clear_markers :: "pymodule \<Rightarrow> pymodule" where
  "clear_markers target_module =
     (let t1 = (if hasattr target_module ''_runtime_patched''
                then delattr target_module ''_runtime_patched'' else target_module)
      in (if hasattr t1 ''_patch_source'' then delattr t1 ''_patch_source'' else t1))"

definition restore_attributes :: "pymodule \<Rightarrow> pymodule \<Rightarrow> pymodule" where
  "restore_attributes backup target_module =
     fold (\<lambda>(attr_name, original_value) t. setattr t attr_name original_value)
       (py_items backup) target_module"

definition restore_module :: "patcher \<Rightarrow> string \<Rightarrow> world \<Rightarrow> bool \<times> world" where
  "restore_module self module_path w =
     (case patch_dicts w (applied_patches self) of
        None \<Rightarrow> (False, w)
      | Some applied \<Rightarrow>
     (case map_of applied module_path of
        None \<Rightarrow> (False, w)
      | Some r \<Rightarrow>
     (case patch_records w r of
        None \<Rightarrow> (False, w)
      | Some rec \<Rightarrow>
     (if \<not> backup_available rec then (False, w)
      else
     (case sys_modules w module_path of
        None \<Rightarrow> (False, w)
      | Some target_module \<Rightarrow>
     (case backup_dicts w (backup_modules self) of
        None \<Rightarrow> (False, w)
      | Some backups \<Rightarrow>
     (case map_of backups module_path of
        None \<Rightarrow> (False, w)
      | Some backup \<Rightarrow>
          (True,
           w\<lparr>sys_modules := (sys_modules w)(module_path \<mapsto>
                  clear_markers (restore_attributes backup target_module)),
             patch_dicts := (patch_dicts w)(applied_patches self \<mapsto>
                  AList.delete module_path applied),
             backup_dicts := (backup_dicts w)(backup_modules self \<mapsto>
                  AList.delete module_path backups)\<rparr>))))))))"


text \<open>\<^verbatim>\<open>list_patches\<close>: \<^verbatim>\<open>dict.copy()\<close> makes a new dictionary with the same values.\<close>

definition list_patches :: "patcher \<Rightarrow> world \<Rightarrow> (nat \<times> world) option" where
  "list_patches self w =
     (case patch_dicts w (applied_patches self) of
        None \<Rightarrow> None
      | Some applied \<Rightarrow>
          Some (next_addr w,
                w\<lparr>patch_dicts := (patch_dicts w)(next_addr w \<mapsto> py_items applied),
                  next_addr := next_addr w + 1\<rparr>))"

definition verify_patch :: "string \<Rightarrow> world \<Rightarrow> bool" where
  "verify_patch module_path w =
     (case sys_modules w module_path of
        Some m \<Rightarrow> hasattr m ''_runtime_patched''
      | None \<Rightarrow> False)"






definition record_paths :: "patcher \<Rightarrow> world \<Rightarrow> string set" where
  "record_paths self w =
     (case patch_dicts w (applied_patches self) of
        None \<Rightarrow> {}
      | Some applied \<Rightarrow> set (py_keys applied))"

definition record_of :: "patcher \<Rightarrow> world \<Rightarrow> string \<Rightarrow> patch_record option" where
  "record_of self w module_path =
     (case patch_dicts w (applied_patches self) of
        None \<Rightarrow> None
      | Some applied \<Rightarrow>
          (case map_of applied module_path of
             None \<Rightarrow> None
           | Some r \<Rightarrow> patch_records w r))"

definition snapshot_of :: "patcher \<Rightarrow> world \<Rightarrow> string \<Rightarrow> pymodule option" where
  "snapshot_of self w module_path =
     (case backup_dicts w (backup_modules self) of
        None \<Rightarrow> None
      | Some backups \<Rightarrow> map_of backups module_path)"

text \<open>
  What the caller of \<^verbatim>\<open>list_patches\<close> can do with the dictionary it got:
  \<^verbatim>\<open>d[k] = r\<close>, \<^verbatim>\<open>del d[k]\<close>, and \<^verbatim>\<open>d[k]['backup_available'] = v\<close>.
\<close>

definition dict_setitem :: "nat \<Rightarrow> string \<Rightarrow> nat \<Rightarrow> world \<Rightarrow> world" where
  "dict_setitem a k r w =
     (case patch_dicts w a of
        None \<Rightarrow> w
      | Some d \<Rightarrow> w\<lparr>patch_dicts := (patch_dicts w)(a \<mapsto> AList.update k r d)\<rparr>)"

definition dict_delitem :: "nat \<Rightarrow> string \<Rightarrow> world \<Rightarrow> world" where
  "dict_delitem a k w =
     (case patch_dicts w a of
        None \<Rightarrow> w
      | Some d \<Rightarrow> w\<lparr>patch_dicts := (patch_dicts w)(a \<mapsto> AList.delete k d)\<rparr>)"

definition set_backup_available :: "nat \<Rightarrow> string \<Rightarrow> bool \<Rightarrow> world \<Rightarrow> world" where
  "set_backup_available a k v w =
     (case patch_dicts w a of
        None \<Rightarrow> w
      | Some d \<Rightarrow>
          (case map_of d k of
             None \<Rightarrow> w
           | Some r \<Rightarrow>
               (case patch_records w r of
                  None \<Rightarrow> w
                | Some rec \<Rightarrow>
                    w\<lparr>patch_records :=
                        (patch_records w)(r \<mapsto> rec\<lparr>backup_available := v\<rparr>)\<rparr>)))"

section \<open>\<^verbatim>\<open>simple_patch.py\<close>\<close>

text \<open>\<^verbatim>\<open>s.replace(old, new)\<close>: every occurrence, from the left, without overlap.\<close>

function str_replace :: "string \<Rightarrow> string \<Rightarrow> string \<Rightarrow> string" where
  "str_replace old new [] = (if old = [] then new else [])"
| "str_replace old new (c # cs) =
     (if old = [] then new @ c # str_replace old new cs
      else if prefix old (c # cs) then new @ str_replace old new (drop (length old) (c # cs))
      else c # str_replace old new cs)"
  by pat_completeness auto
termination
  by (relation "measure (\<lambda>(old, new, s). length s)") auto

text \<open>Lines 36 to 55: five fixed import statements are made absolute.\<close>

definition rewrite_imports :: "string \<Rightarrow> string" where
  "rewrite_imports content =
     (let content1 = str_replace
            ''from ...feature_extraction_utils import BatchFeature''
            ''from transformers.feature_extraction_utils import BatchFeature'' content;
          content2 = str_replace
            ''from ...image_utils import ImageInput''
            ''from transformers.image_utils import ImageInput'' content1;
          content3 = str_replace
            ''from ...processing_utils import ImagesKwargs, ProcessingKwargs, ProcessorMixin, Unpack''
            ''from transformers.processing_utils import ImagesKwargs, ProcessingKwargs, ProcessorMixin, Unpack''
            content2;
          content4 = str_replace
            ''from ...tokenization_utils_base import''
            ''from transformers.tokenization_utils_base import'' content3
      in str_replace
            ''from .image_processing_mllama import make_list_of_images''
            ''from transformers.models.mllama.image_processing_mllama import make_list_of_images''
            content4)"

text \<open>
  \<^verbatim>\<open>patch_mllama_processor_simple\<close>. The statement
  \<^verbatim>\<open>from transformers.models.mllama import processing_mllama\<close> is the import of the module
  by its full path. The rewritten text goes through a temporary file that is new and is
  removed on every path, so the files are as before. The target is changed in place,
  that is, in its registry entry.
\<close>

definition patch_mllama_processor_simple :: "world \<Rightarrow> bool \<times> world" where
  "patch_mllama_processor_simple w =
     (case import_transformers w of
        (Inl e, w1) \<Rightarrow> (False, w1)
      | (Inr _, w1) \<Rightarrow>
     (case import_module mllama_module_path w1 of
        (Inl e, w2) \<Rightarrow> (False, w2)
      | (Inr target_module, w2) \<Rightarrow>
     (case files w2 (script_dir w2 @ ''/'' @ ''processing_mllama.py'') of
        None \<Rightarrow> (False, w2)
      | Some content \<Rightarrow>
     (case py_exec w2 (rewrite_imports content) of
        Inl e \<Rightarrow> (False, w2)
      | Inr bs \<Rightarrow>
     (let custom_module = namespace_of ''custom_processing_mllama'' bs;
          backup = backup_attributes target_module
      in
     (case transplant custom_module target_module of
        (target1, count) \<Rightarrow>
     (let target2 = setattr target1 ''_runtime_patched'' (PyBool True);
          target3 = setattr target2 ''_backup'' (PyDict backup)
      in (True, w2\<lparr>sys_modules := (sys_modules w2)(mllama_module_path \<mapsto> target3)\<rparr>))))))))"

definition restore_mllama_processor_simple :: "world \<Rightarrow> bool \<times> world" where
  "restore_mllama_processor_simple w =
     (case import_module mllama_module_path w of
        (Inl e, w1) \<Rightarrow> (False, w1)
      | (Inr target_module, w1) \<Rightarrow>
     (if \<not> hasattr target_module ''_runtime_patched'' then (False, w1)
      else if \<not> hasattr target_module ''_backup'' then (False, w1)
      else
     (case getattr target_module ''_backup'' of
        Some (PyDict backup) \<Rightarrow>
          (True, w1\<lparr>sys_modules := (sys_modules w1)(mllama_module_path \<mapsto>
             delattr (delattr (restore_attributes backup target_module)
               ''_runtime_patched'') ''_backup'')\<rparr>)
      | _ \<Rightarrow> (False, w1))))"

definition verify_patch_simple :: "world \<Rightarrow> bool \<times> world" where
  "verify_patch_simple w =
     (case import_module mllama_module_path w of
        (Inl e, w1) \<Rightarrow> (False, w1)
      | (Inr target_module, w1) \<Rightarrow> (hasattr target_module ''_runtime_patched'', w1))"

section \<open>\<^verbatim>\<open>runtime_patch.py\<close>\<close>

text \<open>
  Lines 43 to 49: an attribute the original module has is saved in the dictionary held
  by its \<^verbatim>\<open>_original_backup\<close> attribute, then the attribute is set.
\<close>

definition replace_attribute :: "pymodule \<Rightarrow> string \<Rightarrow> pymodule \<Rightarrow> pymodule" where
  "replace_attribute custom_module attr_name original_module =
     (let m1 = (if hasattr original_module attr_name then
                  (case (getattr original_module ''_original_backup'',
                         getattr original_module attr_name) of
                     (Some (PyDict b), Some v) \<Rightarrow>
                       setattr original_module ''_original_backup''
                         (PyDict (AList.update attr_name v b))
                   | _ \<Rightarrow> original_module)
                else original_module)
      in (case getattr custom_module attr_name of
            Some v \<Rightarrow> setattr m1 attr_name v
          | None \<Rightarrow> m1))"

definition runtime_patch_mllama_processor :: "world \<Rightarrow> bool \<times> world" where
  "runtime_patch_mllama_processor w =
     (let custom_processor_path = script_dir w @ ''/'' @ ''processing_mllama.py'' in
     (if files w custom_processor_path = None then (False, w)
      else
     (case spec_from_file_location ''custom_processing_mllama'' custom_processor_path of
        None \<Rightarrow> (False, w)
      | Some spec \<Rightarrow>
     (case exec_module spec w of
        Inl e \<Rightarrow> (False, w)
      | Inr custom_module \<Rightarrow>
     (case import_module mllama_module_path w of
        (Inl e, w1) \<Rightarrow> (False, w1)
      | (Inr original_module, w1) \<Rightarrow>
     (let m0 = setattr original_module ''_original_backup'' (PyDict []);
          custom_attrs = filter (\<lambda>attr. \<not> startswith_underscore attr) (py_dir custom_module);
          m1 = fold (replace_attribute custom_module) custom_attrs m0
      in (True, w1\<lparr>sys_modules := (sys_modules w1)(mllama_module_path \<mapsto> m1)\<rparr>)))))))"

definition restore_original_processor :: "world \<Rightarrow> bool \<times> world" where
  "restore_original_processor w =
     (case import_module mllama_module_path w of
        (Inl e, w1) \<Rightarrow> (False, w1)
      | (Inr module, w1) \<Rightarrow>
     (if hasattr module ''_original_backup'' then
        (case getattr module ''_original_backup'' of
           Some (PyDict b) \<Rightarrow>
             (True, w1\<lparr>sys_modules := (sys_modules w1)(mllama_module_path \<mapsto>
                delattr (restore_attributes b module) ''_original_backup'')\<rparr>)
         | _ \<Rightarrow> (False, w1))
      else (False, w1)))"

text \<open>
  \<^verbatim>\<open>verify_patch\<close> of \<^verbatim>\<open>runtime_patch.py\<close> looks for an attribute of the class
  \<^verbatim>\<open>MllamaProcessor\<close>; only an opaque object has attributes beyond the built-in ones.
\<close>

definition runtime_verify_patch :: "world \<Rightarrow> bool \<times> world" where
  "runtime_verify_patch w =
     (case import_module mllama_module_path w of
        (Inl e, w1) \<Rightarrow> (False, w1)
      | (Inr module, w1) \<Rightarrow>
     (case getattr module ''MllamaProcessor'' of
        None \<Rightarrow> (False, w1)
      | Some (PyObj c) \<Rightarrow> (''_is_custom_patched'' \<in> set (object_attrs w1 c), w1)
      | Some _ \<Rightarrow> (False, w1)))"

section \<open>\<^verbatim>\<open>patch_example.py\<close>: the context manager\<close>

text \<open>
  \<^verbatim>\<open>patched_mllama_processor\<close> takes its patcher class from \<^verbatim>\<open>advanced_patch\<close>: the class
  is a parameter, with a constructor and the two methods that are called, each of which
  may return or raise. The body of the \<^verbatim>\<open>with\<close> statement gets the value that is
  yielded and ends by falling off its end, by a \<^verbatim>\<open>return\<close>, or by an exception.
  The calls made on the patcher are listed in their order.
\<close>

record ('p, 's) patcher_class =
  construct :: "'s \<Rightarrow> 'p \<times> 's"
  patch_method :: "'p \<Rightarrow> string option \<Rightarrow> 's \<Rightarrow> (py_error + bool) \<times> 's"
  restore_method :: "'p \<Rightarrow> string \<Rightarrow> 's \<Rightarrow> (py_error + bool) \<times> 's"

datatype 'r outcome = Completed | Returned 'r | Raised py_error

datatype call = CallPatch "string option" | CallRestore string

definition patched_mllama_processor ::
    "('p, 's) patcher_class \<Rightarrow> string option \<Rightarrow> (bool \<Rightarrow> 's \<Rightarrow> 'r outcome \<times> 's) \<Rightarrow> 's
       \<Rightarrow> 'r outcome \<times> 's \<times> call list" where
  "patched_mllama_processor cls custom_file_path body s =
     (case construct cls s of
        (patcher, s0) \<Rightarrow>
     (case patch_method cls patcher custom_file_path s0 of
        (Inl e, s1) \<Rightarrow> (Raised e, s1, [CallPatch custom_file_path])
      | (Inr patch_applied, s1) \<Rightarrow>
     (case body patch_applied s1 of
        (out, s2) \<Rightarrow>
     (if patch_applied then
        (case restore_method cls patcher mllama_module_path s2 of
           (Inl e, s3) \<Rightarrow>
             (Raised e, s3, [CallPatch custom_file_path, CallRestore mllama_module_path])
         | (Inr ok, s3) \<Rightarrow>
             (out, s3, [CallPatch custom_file_path, CallRestore mllama_module_path]))
      else (out, s2, [CallPatch custom_file_path])))))"

text \<open>The class of \<^verbatim>\<open>fixed_patch.py\<close>, whose methods catch every exception.\<close>

definition fixed_patcher_class :: "(patcher, world) patcher_class" where
  "fixed_patcher_class =
     \<lparr>construct = new_patcher,
      patch_method = (\<lambda>self custom_file_path w.
         (case patch_mllama_processor self custom_file_path w of (ok, w') \<Rightarrow> (Inr ok, w'))),
      restore_method = (\<lambda>self module_path w.
         (case restore_module self module_path w of (ok, w') \<Rightarrow> (Inr ok, w')))\<rparr>"

section \<open>A small process to run the operations on\<close>

text \<open>
  The module \<^verbatim>\<open>pkg.mod\<close> has \<^verbatim>\<open>foo = 1\<close> and \<^verbatim>\<open>bar = 'x'\<close>. One replacement file defines
  \<^verbatim>\<open>foo = 2\<close>; another imports \<^verbatim>\<open>path\<close> and defines \<^verbatim>\<open>baz = 3\<close>. The mllama processor
  module is installed but not imported yet, and its replacement lies beside the tool.
\<close>

definition demo_exec :: "string \<Rightarrow> py_error + binding list" where
  "demo_exec src =
     (if src = ''foo = 2'' then Inr [(''foo'', Defined, PyInt 2)]
      else if src = ''from os import path; baz = 3''
        then Inr [(''path'', Imported, PyObj 7), (''baz'', Defined, PyInt 3)]
      else if src = ''class MllamaProcessor: pass''
        then Inr [(''MllamaProcessor'', Defined, PyObj 2)]
      else Inl (RaisedByModule 0))"

definition demo_world :: world where
  "demo_world =
     \<lparr>sys_modules =
        [''transformers'' \<mapsto> [(''__version__'', PyStr ''4.45.0'')],
         ''pkg'' \<mapsto> [(''__name__'', PyStr ''pkg'')],
         ''pkg.mod'' \<mapsto>
            [(''__name__'', PyStr ''pkg.mod''), (''foo'', PyInt 1), (''bar'', PyStr ''x'')]],
      installed =
        [''transformers.models'' \<mapsto> [(''__name__'', PyStr ''transformers.models'')],
         ''transformers.models.mllama'' \<mapsto>
            [(''__name__'', PyStr ''transformers.models.mllama'')],
         ''transformers.models.mllama.processing_mllama'' \<mapsto>
            [(''__name__'', PyStr ''transformers.models.mllama.processing_mllama''),
             (''MllamaProcessor'', PyObj 1)]],
      files = [''/repl/foo2.py'' \<mapsto> ''foo = 2'',
               ''/repl/baz3.py'' \<mapsto> ''from os import path; baz = 3'',
               ''/repl/processing_mllama.py'' \<mapsto> ''class MllamaProcessor: pass''],
      py_exec = demo_exec,
      script_dir = ''/repl'',
      patch_dicts = Map.empty,
      patch_records = Map.empty,
      backup_dicts = Map.empty,
      next_addr = 0,
      object_attrs = (\<lambda>c. [])\<rparr>"

definition demo_patcher :: patcher where
  "demo_patcher = fst (new_patcher demo_world)"

definition demo_start :: world where
  "demo_start = snd (new_patcher demo_world)"

definition demo_patched :: world where
  "demo_patched =
     snd (patch_module_from_file demo_patcher ''pkg.mod'' ''/repl/foo2.py'' True demo_start)"

text \<open>The attribute \<^verbatim>\<open>name\<close> of the module registered under \<^verbatim>\<open>path\<close>, if both exist.\<close>

definition module_attr :: "world \<Rightarrow> string \<Rightarrow> string \<Rightarrow> pyval option" where
  "module_attr w path name =
     (case sys_modules w path of
        None \<Rightarrow> None
      | Some m \<Rightarrow> getattr m name)"

definition demo_patched_twice :: world where
  "demo_patched_twice =
     snd (patch_module_from_file demo_patcher ''pkg.mod'' ''/repl/foo2.py'' True demo_patched)"






definition demo_listed :: "nat \<times> world" where
  "demo_listed =
     (case list_patches demo_patcher demo_patched of
        None \<Rightarrow> (0, demo_patched)
      | Some aw \<Rightarrow> aw)"

section \<open>Attributes, dictionaries and the import system\<close>


lemma hasattr_setattr: "hasattr (setattr m n v) k = (k = n \<or> hasattr m k)"
  by (simp add: hasattr_def setattr_def update_conv')


lemma hasattr_delattr: "hasattr (delattr m n) k = (k \<noteq> n \<and> hasattr m k)"
  by (simp add: hasattr_def delattr_def delete_conv')


lemma map_of_py_items: "map_of (py_items d) = map_of d"
  by (simp add: py_items_def map_of_clearjunk)






lemma clear_markers_no_flag: "\<not> hasattr (clear_markers m) ''_runtime_patched''"
  by (simp add: clear_markers_def Let_def hasattr_delattr)

















lemma import_parts_result:
  "import_parts ps w = (Inr m, w') \<Longrightarrow> ps \<noteq> [] \<Longrightarrow> sys_modules w' (join_dot (rev ps)) = Some m"
proof (cases ps)
  case Nil
  assume "ps \<noteq> []" with Nil show ?thesis by simp
next
  case (Cons leaf rparents)
  assume a: "import_parts ps w = (Inr m, w')"
  show ?thesis
    using a unfolding Cons
    by (auto split: option.splits prod.splits sum.splits if_splits)
qed









lemma patch_module_from_file_success:
  assumes "patch_module_from_file self p f b w = (True, w')"
  obtains tm w1 target w2 custom applied where
    "files w f \<noteq> None"
    "import_transformers w = (Inr tm, w1)"
    "import_module p w1 = (Inr target, w2)"
    "exec_module (''custom_'' @ dots_to_underscores p, f) (register_parents p w2) = Inr custom"
    "patch_dicts (register_parents p w2) (applied_patches self) = Some applied"
    "b \<longrightarrow> (\<exists>backups. backup_dicts (register_parents p w2) (backup_modules self) = Some backups)"
    "w' = (register_parents p w2)
       \<lparr>backup_dicts :=
          (if b then (backup_dicts (register_parents p w2))(backup_modules self \<mapsto>
             AList.update p (backup_attributes target)
               (the (backup_dicts (register_parents p w2) (backup_modules self))))
           else backup_dicts (register_parents p w2)),
        sys_modules := (sys_modules (register_parents p w2))(p \<mapsto>
           setattr (setattr (fst (transplant custom target)) ''_runtime_patched'' (PyBool True))
             ''_patch_source'' (PyStr f)),
        patch_records := (patch_records (register_parents p w2))(next_addr (register_parents p w2) \<mapsto>
           \<lparr>source_file = f, patch_count = snd (transplant custom target), backup_available = b\<rparr>),
        patch_dicts := (patch_dicts (register_parents p w2))(applied_patches self \<mapsto>
           AList.update p (next_addr (register_parents p w2)) applied),
        next_addr := next_addr (register_parents p w2) + 1\<rparr>"
  using assms
  unfolding patch_module_from_file_def spec_from_file_location_def Let_def
  by (auto split: if_splits prod.splits sum.splits option.splits)

section \<open>The patcher of fixed_patch.py\<close>

lemma restore_module_success:
  assumes "restore_module self p w = (True, w')"
  obtains applied r rec target backups backup where
    "patch_dicts w (applied_patches self) = Some applied"
    "map_of applied p = Some r"
    "patch_records w r = Some rec"
    "backup_available rec"
    "sys_modules w p = Some target"
    "backup_dicts w (backup_modules self) = Some backups"
    "map_of backups p = Some backup"
    "w' = w\<lparr>sys_modules := (sys_modules w)(p \<mapsto>
                  clear_markers (restore_attributes backup target)),
             patch_dicts := (patch_dicts w)(applied_patches self \<mapsto>
                  AList.delete p applied),
             backup_dicts := (backup_dicts w)(backup_modules self \<mapsto>
                  AList.delete p backups)\<rparr>"
  using assms
  unfolding restore_module_def
  by (auto split: if_splits option.splits)

lemma patch_sets_marker:
  assumes "patch_module_from_file self p f b w = (True, w')"
  shows "verify_patch p w'"
proof -
  from assms obtain tm w1 target w2 custom applied where
    w': "w' = (register_parents p w2)
       \<lparr>backup_dicts :=
          (if b then (backup_dicts (register_parents p w2))(backup_modules self \<mapsto>
             AList.update p (backup_attributes target)
               (the (backup_dicts (register_parents p w2) (backup_modules self))))
           else backup_dicts (register_parents p w2)),
        sys_modules := (sys_modules (register_parents p w2))(p \<mapsto>
           setattr (setattr (fst (transplant custom target)) ''_runtime_patched'' (PyBool True))
             ''_patch_source'' (PyStr f)),
        patch_records := (patch_records (register_parents p w2))(next_addr (register_parents p w2) \<mapsto>
           \<lparr>source_file = f, patch_count = snd (transplant custom target), backup_available = b\<rparr>),
        patch_dicts := (patch_dicts (register_parents p w2))(applied_patches self \<mapsto>
           AList.update p (next_addr (register_parents p w2)) applied),
        next_addr := next_addr (register_parents p w2) + 1\<rparr>"
    by (rule patch_module_from_file_success)
  show ?thesis
    unfolding w' verify_patch_def by (simp add: hasattr_setattr)
qed

lemma restore_clears_marker:
  assumes "restore_module self p w = (True, w')"
  shows "\<not> verify_patch p w'"
proof -
  from assms obtain applied target backups backup where
    w': "w' = w\<lparr>sys_modules := (sys_modules w)(p \<mapsto>
                  clear_markers (restore_attributes backup target)),
             patch_dicts := (patch_dicts w)(applied_patches self \<mapsto>
                  AList.delete p applied),
             backup_dicts := (backup_dicts w)(backup_modules self \<mapsto>
                  AList.delete p backups)\<rparr>"
    by (rule restore_module_success)
  show ?thesis
    unfolding w' verify_patch_def by (simp add: clear_markers_no_flag)
qed

text \<open>
  C5. Right after a successful \<^verbatim>\<open>patch_module_from_file\<close> on a module path,
  \<^verbatim>\<open>verify_patch\<close> on that path is true, and right after a successful \<^verbatim>\<open>restore_module\<close>
  it is false.
\<close>

theorem verify_after_apply_and_after_restore:
  "(fst (patch_module_from_file self module_path custom_file_path backup w) \<longrightarrow>
      verify_patch module_path
        (snd (patch_module_from_file self module_path custom_file_path backup w))) \<and>
   (fst (restore_module self module_path w) \<longrightarrow>
      \<not> verify_patch module_path (snd (restore_module self module_path w)))"
proof (intro conjI impI)
  assume "fst (patch_module_from_file self module_path custom_file_path backup w)"
  then have "patch_module_from_file self module_path custom_file_path backup w =
      (True, snd (patch_module_from_file self module_path custom_file_path backup w))"
    by (simp add: prod_eq_iff)
  then show "verify_patch module_path
      (snd (patch_module_from_file self module_path custom_file_path backup w))"
    by (rule patch_sets_marker)
next
  assume "fst (restore_module self module_path w)"
  then have "restore_module self module_path w = (True, snd (restore_module self module_path w))"
    by (simp add: prod_eq_iff)
  then show "\<not> verify_patch module_path (snd (restore_module self module_path w))"
    by (rule restore_clears_marker)
qed

lemma demo_patch_succeeds:
  "fst (patch_module_from_file demo_patcher ''pkg.mod'' ''/repl/foo2.py'' True demo_start)"
  by code_simp

lemma demo_restore_succeeds: "fst (restore_module demo_patcher ''pkg.mod'' demo_patched)"
  by code_simp

theorem verify_after_apply_and_after_restore_witness:
  "fst (patch_module_from_file demo_patcher ''pkg.mod'' ''/repl/foo2.py'' True demo_start) \<and>
   verify_patch ''pkg.mod'' demo_patched \<and>
   fst (restore_module demo_patcher ''pkg.mod'' demo_patched) \<and>
   \<not> verify_patch ''pkg.mod'' (snd (restore_module demo_patcher ''pkg.mod'' demo_patched))"
  using demo_patch_succeeds demo_restore_succeeds
    verify_after_apply_and_after_restore
      [of demo_patcher "''pkg.mod''" "''/repl/foo2.py''" True demo_start]
    verify_after_apply_and_after_restore
      [of demo_patcher "''pkg.mod''" "''/repl/foo2.py''" True demo_patched]
  unfolding demo_patched_def by blast

text \<open>
  C7. \<^verbatim>\<open>restore_module\<close> on a path that has no Patch Record returns \<^verbatim>\<open>False\<close> and
  leaves everything as it was: the ledger, the records and the modules.
\<close>

theorem restore_never_patched:
  "record_of self w module_path = None \<Longrightarrow>
   restore_module self module_path w = (False, w)"
  unfolding record_of_def restore_module_def
  by (auto split: option.splits)

theorem restore_never_patched_witness:
  "record_of demo_patcher demo_start ''pkg.mod'' = None \<and>
   restore_module demo_patcher ''pkg.mod'' demo_start = (False, demo_start)"
proof -
  have h: "record_of demo_patcher demo_start ''pkg.mod'' = None" by code_simp
  show ?thesis using h restore_never_patched [OF h] by simp
qed




text \<open>
  C1 on the code. The first call stores the snapshot \<^verbatim>\<open>foo = 1\<close>; the second call
  replaces it by the patched value \<^verbatim>\<open>foo = 2\<close>, and \<^verbatim>\<open>restore_module\<close> then reports success
  and leaves \<^verbatim>\<open>foo = 2\<close>.
\<close>

theorem second_apply_overwrites_snapshot:
  "fst (patch_module_from_file demo_patcher ''pkg.mod'' ''/repl/foo2.py'' True demo_start) \<and>
   snapshot_of demo_patcher demo_patched ''pkg.mod'' =
     Some [(''bar'', PyStr ''x''), (''foo'', PyInt 1)] \<and>
   fst (patch_module_from_file demo_patcher ''pkg.mod'' ''/repl/foo2.py'' True demo_patched) \<and>
   snapshot_of demo_patcher demo_patched_twice ''pkg.mod'' =
     Some [(''bar'', PyStr ''x''), (''foo'', PyInt 2)] \<and>
   fst (restore_module demo_patcher ''pkg.mod'' demo_patched_twice) \<and>
   module_attr (snd (restore_module demo_patcher ''pkg.mod'' demo_patched_twice))
     ''pkg.mod'' ''foo'' = Some (PyInt 2) \<and>
   module_attr demo_start ''pkg.mod'' ''foo'' = Some (PyInt 1)"
  by code_simp


lemma split_dot_acc_nonempty: "split_dot_acc cur s \<noteq> []"
  by (induction s arbitrary: cur) auto

lemma join_dot_Cons: "ys \<noteq> [] \<Longrightarrow> join_dot (x # ys) = x @ ''.'' @ join_dot ys"
  by (cases ys) auto

lemma join_split_acc: "join_dot (split_dot_acc cur s) = rev cur @ s"
  by (induction s arbitrary: cur) (auto simp add: join_dot_Cons split_dot_acc_nonempty)

lemma join_split_dot: "join_dot (split_dot s) = s"
  by (simp add: split_dot_def join_split_acc)

lemma import_module_registered:
  assumes "sys_modules w p = Some m"
  shows "import_module p w = (Inr m, w)"
proof -
  obtain leaf rparents where ps: "rev (split_dot p) = leaf # rparents"
    using split_dot_acc_nonempty[of "[]" p] by (cases "rev (split_dot p)") (auto simp add: split_dot_def)
  have "join_dot (rev (leaf # rparents)) = p"
    using join_split_dot[of p] ps by (metis rev_rev_ident)
  then show ?thesis
    unfolding import_module_def ps using assms by simp
qed


















section \<open>The import rewriting of simple_patch.py\<close>





section \<open>The context manager of patch_example.py\<close>

text \<open>
  C8. The context manager calls the patch method first and hands its result to the
  body. However the body ends, by falling off its end, by a \<^verbatim>\<open>return\<close> or by an exception,
  the restore method is called once, for the mllama processor path, when the patch method
  returned \<^verbatim>\<open>True\<close>, and not at all when it returned \<^verbatim>\<open>False\<close> or raised.
\<close>

theorem scoped_patch_context:
  "(case construct cls s of
      (patcher, s0) \<Rightarrow>
    (case patch_method cls patcher custom_file_path s0 of
      (r, s1) \<Rightarrow>
    (case patched_mllama_processor cls custom_file_path body s of
      (out, s', calls) \<Rightarrow>
        calls = CallPatch custom_file_path #
                  (if r = Inr True then [CallRestore mllama_module_path] else []) \<and>
        (\<forall>b. r = Inr b \<longrightarrow>
           (if b then s' = snd (restore_method cls patcher mllama_module_path (snd (body b s1)))
            else (out, s') = body b s1)))))"
  unfolding patched_mllama_processor_def
  by (auto split: prod.splits sum.splits)

theorem scoped_patch_context_witness:
  "fst (patch_method fixed_patcher_class (fst (construct fixed_patcher_class demo_world)) None
     (snd (construct fixed_patcher_class demo_world))) = Inr True \<and>
   snd (snd (patched_mllama_processor fixed_patcher_class None
     (\<lambda>b s. (Raised KeyError :: unit outcome, s)) demo_world)) =
   [CallPatch None, CallRestore mllama_module_path]"
proof -
  have h: "fst (patch_method fixed_patcher_class (fst (construct fixed_patcher_class demo_world)) None
     (snd (construct fixed_patcher_class demo_world))) = Inr True"
    by code_simp
  show ?thesis
    using h scoped_patch_context [where cls = fixed_patcher_class and s = demo_world
      and custom_file_path = None
      and body = "\<lambda>b s. (Raised KeyError :: unit outcome, s)"]
    by (auto split: prod.splits)
qed

section \<open>The ledger and the records between operations\<close>



















section \<open>The copy returned by list_patches\<close>

lemma record_of_cong:
  assumes a: "patch_dicts w1 (applied_patches self) = patch_dicts w2 (applied_patches self)"
    and b: "patch_records w1 = patch_records w2"
  shows "record_of self w1 = record_of self w2"
proof
  fix path
  show "record_of self w1 path = record_of self w2 path"
    unfolding record_of_def a b ..
qed

lemma record_paths_cong:
  "patch_dicts w1 (applied_patches self) = patch_dicts w2 (applied_patches self) \<Longrightarrow>
   record_paths self w1 = record_paths self w2"
  by (simp add: record_paths_def)

text \<open>
  C9, as the code has it. \<^verbatim>\<open>list_patches\<close> changes nothing of the patcher and returns a new
  dictionary with the patcher's paths, each bound to the patcher's own record object.
  Setting or deleting a key of the returned dictionary leaves the patcher's records as
  they are; writing into a record reached through it writes into the patcher's record.
\<close>

theorem list_patches_shallow_copy:
  assumes "applied_patches self < next_addr w"
    and "list_patches self w = Some (a, w')"
  shows "a \<noteq> applied_patches self \<and>
    record_of self w' = record_of self w \<and>
    record_paths self w' = record_paths self w \<and>
    (\<exists>applied. patch_dicts w (applied_patches self) = Some applied \<and>
       patch_dicts w' a = Some (py_items applied)) \<and>
    (\<forall>k r. record_of self (dict_setitem a k r w') = record_of self w \<and>
       record_paths self (dict_setitem a k r w') = record_paths self w) \<and>
    (\<forall>k. record_of self (dict_delitem a k w') = record_of self w \<and>
       record_paths self (dict_delitem a k w') = record_paths self w) \<and>
    (\<forall>path rec v. record_of self w path = Some rec \<longrightarrow>
       record_of self (set_backup_available a path v w') path =
         Some (rec\<lparr>backup_available := v\<rparr>))"
proof -
  from assms(2) obtain applied where
    ap: "patch_dicts w (applied_patches self) = Some applied"
    and a: "a = next_addr w"
    and w': "w' = w\<lparr>patch_dicts := (patch_dicts w)(next_addr w \<mapsto> py_items applied),
                  next_addr := next_addr w + 1\<rparr>"
    unfolding list_patches_def by (auto split: option.splits)
  have ne: "a \<noteq> applied_patches self" using assms(1) a by simp
  have pd: "patch_dicts w' (applied_patches self) = patch_dicts w (applied_patches self)"
    unfolding w' using ne a by simp
  have pr: "patch_records w' = patch_records w"
    unfolding w' by simp
  have copy: "patch_dicts w' a = Some (py_items applied)"
    unfolding w' a by simp
  have set1: "patch_dicts (dict_setitem a k r w') (applied_patches self) =
      patch_dicts w (applied_patches self)" for k r
    unfolding dict_setitem_def using copy ne pd by simp
  have set2: "patch_records (dict_setitem a k r w') = patch_records w" for k r
    unfolding dict_setitem_def using copy pr by simp
  have del1: "patch_dicts (dict_delitem a k w') (applied_patches self) =
      patch_dicts w (applied_patches self)" for k
    unfolding dict_delitem_def using copy ne pd by simp
  have del2: "patch_records (dict_delitem a k w') = patch_records w" for k
    unfolding dict_delitem_def using copy pr by simp
  have shared: "record_of self (set_backup_available a path v w') path =
         Some (rec\<lparr>backup_available := v\<rparr>)"
    if "record_of self w path = Some rec" for path rec v
  proof -
    from that ap obtain r where m: "map_of applied path = Some r" and r: "patch_records w r = Some rec"
      unfolding record_of_def by (auto split: option.splits)
    have "set_backup_available a path v w' =
        w'\<lparr>patch_records := (patch_records w')(r \<mapsto> rec\<lparr>backup_available := v\<rparr>)\<rparr>"
      unfolding set_backup_available_def using copy m r pr by (simp add: map_of_py_items)
    then show ?thesis
      unfolding record_of_def using pd ap m by simp
  qed
  show ?thesis
    using ne record_of_cong[OF pd pr] record_paths_cong[OF pd] ap copy
      record_of_cong[OF set1 set2] record_paths_cong[OF set1]
      record_of_cong[OF del1 del2] record_paths_cong[OF del1] shared
    by blast
qed

lemma demo_list_patches: "list_patches demo_patcher demo_patched = Some demo_listed"
proof -
  have "list_patches demo_patcher demo_patched \<noteq> None" by code_simp
  then show ?thesis unfolding demo_listed_def by auto
qed

theorem list_patches_shallow_copy_witness:
  "applied_patches demo_patcher < next_addr demo_patched \<and>
   list_patches demo_patcher demo_patched = Some demo_listed \<and>
   fst demo_listed \<noteq> applied_patches demo_patcher \<and>
   record_of demo_patcher (dict_delitem (fst demo_listed) ''pkg.mod'' (snd demo_listed)) =
     record_of demo_patcher demo_patched"
proof -
  have h: "applied_patches demo_patcher < next_addr demo_patched" by code_simp
  have l: "list_patches demo_patcher demo_patched = Some (fst demo_listed, snd demo_listed)"
    using demo_list_patches by simp
  show ?thesis
    using h demo_list_patches list_patches_shallow_copy [OF h l] by blast
qed

text \<open>
  C9 as stated fails: a write into the record reached through the returned dictionary
  changes the patcher's own record, and \<^verbatim>\<open>restore_module\<close> then refuses.
\<close>

theorem list_patches_counterexample:
  "map_option backup_available (record_of demo_patcher (snd demo_listed) ''pkg.mod'') = Some True \<and>
   map_option backup_available
     (record_of demo_patcher
        (set_backup_available (fst demo_listed) ''pkg.mod'' False (snd demo_listed)) ''pkg.mod'') =
     Some False \<and>
   fst (restore_module demo_patcher ''pkg.mod'' (snd demo_listed)) \<and>
   \<not> fst (restore_module demo_patcher ''pkg.mod''
           (set_backup_available (fst demo_listed) ''pkg.mod'' False (snd demo_listed)))"
  by code_simp

section \<open>The tools of simple_patch.py and runtime_patch.py\<close>

lemma simple_patch_then_verify:
  assumes "fst (patch_mllama_processor_simple w)"
  shows "fst (verify_patch_simple (snd (patch_mllama_processor_simple w)))"
proof -
  from assms obtain m where
    s: "sys_modules (snd (patch_mllama_processor_simple w)) mllama_module_path = Some m"
    and h: "hasattr m ''_runtime_patched''"
    unfolding patch_mllama_processor_simple_def Let_def
    by (auto simp add: hasattr_setattr split: prod.splits sum.splits option.splits)
  show ?thesis
    unfolding verify_patch_simple_def import_module_registered[OF s] using h by simp
qed

lemma simple_restore_then_verify:
  assumes "fst (restore_mllama_processor_simple w)"
  shows "\<not> fst (verify_patch_simple (snd (restore_mllama_processor_simple w)))"
proof -
  from assms obtain m where
    s: "sys_modules (snd (restore_mllama_processor_simple w)) mllama_module_path = Some m"
    and h: "\<not> hasattr m ''_runtime_patched''"
    unfolding restore_mllama_processor_simple_def
    by (auto simp add: hasattr_delattr split: prod.splits sum.splits option.splits pyval.splits if_splits)
  show ?thesis
    unfolding verify_patch_simple_def import_module_registered[OF s] using h by simp
qed

lemma simple_restore_never_patched:
  assumes "sys_modules w mllama_module_path = Some m" and "\<not> hasattr m ''_runtime_patched''"
  shows "restore_mllama_processor_simple w = (False, w)"
  unfolding restore_mllama_processor_simple_def import_module_registered[OF assms(1)]
  using assms(2) by simp

lemma runtime_restore_never_patched:
  assumes "sys_modules w mllama_module_path = Some m" and "\<not> hasattr m ''_original_backup''"
  shows "restore_original_processor w = (False, w)"
  unfolding restore_original_processor_def import_module_registered[OF assms(1)]
  using assms(2) by simp

text \<open>
  The two other tools behave like the patcher where the claims look at them: a second
  call replaces the stored backup by the patched values, and \<^verbatim>\<open>verify_patch\<close> of
  \<^verbatim>\<open>runtime_patch.py\<close> reads an attribute of the class \<^verbatim>\<open>MllamaProcessor\<close>, which the patch
  itself does not write.
\<close>

lemma simple_second_apply_overwrites_backup:
  "fst (patch_mllama_processor_simple demo_world) \<and>
   module_attr (snd (patch_mllama_processor_simple demo_world)) mllama_module_path ''_backup'' =
     Some (PyDict [(''MllamaProcessor'', PyObj 1)]) \<and>
   fst (patch_mllama_processor_simple (snd (patch_mllama_processor_simple demo_world))) \<and>
   module_attr (snd (patch_mllama_processor_simple (snd (patch_mllama_processor_simple demo_world))))
     mllama_module_path ''_backup'' =
     Some (PyDict [(''MllamaProcessor'', PyObj 2)])"
  by code_simp

lemma runtime_second_apply_overwrites_backup:
  "fst (runtime_patch_mllama_processor demo_world) \<and>
   module_attr (snd (runtime_patch_mllama_processor demo_world)) mllama_module_path
     ''_original_backup'' = Some (PyDict [(''MllamaProcessor'', PyObj 1)]) \<and>
   fst (runtime_patch_mllama_processor (snd (runtime_patch_mllama_processor demo_world))) \<and>
   module_attr (snd (runtime_patch_mllama_processor (snd (runtime_patch_mllama_processor demo_world))))
     mllama_module_path ''_original_backup'' = Some (PyDict [(''MllamaProcessor'', PyObj 2)])"
  by code_simp

lemma runtime_verify_reads_the_class:
  "fst (runtime_patch_mllama_processor demo_world) \<and>
   \<not> fst (runtime_verify_patch (snd (runtime_patch_mllama_processor demo_world))) \<and>
   fst (runtime_verify_patch
     ((snd (runtime_patch_mllama_processor demo_world))
        \<lparr>object_attrs := (\<lambda>c. if c = 2 then [''_is_custom_patched''] else [])\<rparr>))"
  by code_simp

end
